theory Spec2Isabelle
  imports Complex_Main
begin

section \<open>Values exchanged with the client\<close>

text \<open>
  The views of \<^verbatim>\<open>materials/views/api.py\<close> read and write JSON. A parsed JSON value
  is a Python object: \<^verbatim>\<open>None\<close>, a bool, a number, a str, a list or a dict. Numbers are
  kept as exact rationals: the views only compare scores, and Python compares ints and
  finite floats exactly (NaN and the infinities, which \<^verbatim>\<open>json.loads\<close> also accepts, are
  left out). A dict is the list of its items; where a key is repeated the last item
  counts, as in \<^verbatim>\<open>json.loads\<close>. Keys and literals are byte strings (UTF-8); they are
  only ever tested for equality.
\<close>

datatype json =
    JNull
  | JBool bool
  | JNum rat
  | JStr string
  | JArr "json list"
  | JObj "(string \<times> json) list"

type_synonym dict = "(string \<times> json) list"

text \<open>\<^verbatim>\<open>key in d\<close> and \<^verbatim>\<open>d.get(key, default)\<close> on a dict.\<close>

definition has_key :: "string \<Rightarrow> dict \<Rightarrow> bool" where
  "has_key k d = (k \<in> fst ` set d)"

definition dict_get :: "dict \<Rightarrow> string \<Rightarrow> json \<Rightarrow> json" where
  "dict_get d k dflt = (case map_of (rev d) k of None \<Rightarrow> dflt | Some v \<Rightarrow> v)"

text \<open>Python's truth value of a parsed JSON value (\<^verbatim>\<open>not topic\<close>).\<close>

fun truthy :: "json \<Rightarrow> bool" where
  "truthy JNull = False"
| "truthy (JBool b) = b"
| "truthy (JNum r) = (r \<noteq> 0)"
| "truthy (JStr s) = (s \<noteq> [])"
| "truthy (JArr xs) = (xs \<noteq> [])"
| "truthy (JObj d) = (d \<noteq> [])"

text \<open>
  The exceptions that leave a view unhandled (the framework answers 500;
  \<^verbatim>\<open>ValidationError\<close> is what a decimal column raises on a value it refuses), and the
  numeric reading of a value in a comparison with a number: ints, floats and bools
  (\<^verbatim>\<open>True\<close> is 1) compare, everything else raises \<^verbatim>\<open>TypeError\<close>.
\<close>

datatype pyexn = AttributeError | TypeError | ValueError | UnicodeDecodeError | ValidationError

fun number :: "json \<Rightarrow> rat option" where
  "number (JNum r) = Some r"
| "number (JBool b) = Some (if b then 1 else 0)"
| "number _ = None"

definition py_ge :: "json \<Rightarrow> rat \<Rightarrow> pyexn + bool" where
  "py_ge v r = (case number v of None \<Rightarrow> Inl TypeError | Some x \<Rightarrow> Inr (r \<le> x))"

definition py_lt :: "rat \<Rightarrow> json \<Rightarrow> pyexn + bool" where
  "py_lt r v = (case number v of None \<Rightarrow> Inl TypeError | Some x \<Rightarrow> Inr (r < x))"

text \<open>
  A response: \<^verbatim>\<open>JsonResponse(data, status=...)\<close> with the items of \<^verbatim>\<open>data\<close> in the order
  the source writes them, the page of \<^verbatim>\<open>get_object_or_404\<close>, or an exception that no
  handler of the view catches.
\<close>

datatype response =
    JsonResponse dict nat
  | Http404
  | Unhandled pyexn

text \<open>
  A datetime is represented by its ISO-8601 text, so \<^verbatim>\<open>isoformat()\<close> returns it as it
  is. A draft is a Python str, a list of code points.
\<close>

type_synonym datetime = string

definition isoformat :: "datetime \<Rightarrow> string" where
  "isoformat t = t"

type_synonym pystr = "nat list"

section \<open>The store\<close>

text \<open>
  Modelled from the spec: \<^verbatim>\<open>models.py\<close> is not among the sources, so the members of
  \<^verbatim>\<open>Assignment.Status\<close> are the four of the data model (section 3 of the specification);
  the view names each of them.
\<close>

datatype Status = ASSIGNED | IN_PROGRESS | SUBMITTED | GRADED

text \<open>\<^verbatim>\<open>Submission.Status\<close>: the views use the member \<^verbatim>\<open>SUBMITTED\<close> only.\<close>

datatype Submission_Status = Submission_SUBMITTED

text \<open>
  Modelled from the spec: the field types come from the data model of the specification.
  \<^verbatim>\<open>structured_content\<close> is a JSON object or null (a payload distinguished by key
  presence), \<^verbatim>\<open>score\<close> is numeric and nullable. The foreign key \<^verbatim>\<open>material\<close> may
  yield no object: the view handles the \<^verbatim>\<open>AttributeError\<close> of that access.
\<close>

record Material =
  structured_content :: "dict option"

record Assignment =
  student_id :: nat
  status :: Status
  draft_response :: pystr
  material :: "Material option"

record Submission =
  sub_assignment_id :: nat
  sub_student_id :: nat
  sub_status :: Submission_Status
  submitted_at :: datetime
  graded_at :: datetime
  score :: "rat option"
  feedback :: string

text \<open>
  The assignments by primary key, and the table of submissions in the order of
  creation; the primary key of a submission is its position in the table.
\<close>

record Store =
  assignments :: "nat \<rightharpoonup> Assignment"
  submissions :: "Submission list"

text \<open>
  Modelled from the spec: \<^verbatim>\<open>assignment.submissions.last()\<close> depends on the ordering
  declared in \<^verbatim>\<open>models.py\<close>; by the specification the latest submission is the one most
  recently created. The result is the row with its primary key, or \<open>None\<close>.
\<close>

definition submissions_last :: "Store \<Rightarrow> nat \<Rightarrow> (nat \<times> Submission) option" where
  "submissions_last db aid =
     (case filter (\<lambda>(pk, s). sub_assignment_id s = aid) (enumerate 0 (submissions db)) of
        [] \<Rightarrow> None
      | x # xs \<Rightarrow> Some (last (x # xs)))"

text \<open>
  Modelled from the spec: what the numeric, nullable column \<^verbatim>\<open>score\<close> keeps of the
  value handed to \<^verbatim>\<open>Submission.objects.create\<close>. A number is kept and \<^verbatim>\<open>None\<close> is NULL.
  What the column does with any other value (a str, a list, a dict) depends on the
  field class that \<^verbatim>\<open>models.py\<close> declares, which is not among the sources: an integer
  field converts the str "90" and refuses "90.5", a float field converts both, and the
  exception raised on a refusal differs. That conversion is the parameter \<open>col\<close> of the
  model: the value kept, or the exception raised.
\<close>

type_synonym column = "json \<Rightarrow> pyexn + rat option"

definition score_column :: "column \<Rightarrow> json \<Rightarrow> pyexn + rat option" where
  "score_column col v =
     (case v of
        JNull \<Rightarrow> Inr None
      | JNum r \<Rightarrow> Inr (Some r)
      | JBool b \<Rightarrow> Inr (Some (if b then 1 else 0))
      | _ \<Rightarrow> col v)"

text \<open>The score of a row as it is serialised in a response.\<close>

definition json_of_score :: "rat option \<Rightarrow> json" where
  "json_of_score v = (case v of None \<Rightarrow> JNull | Some r \<Rightarrow> JNum r)"

text \<open>
  \<^verbatim>\<open>Submission.objects.create(assignment=..., student=request.user, status=SUBMITTED,
  submitted_at=now, graded_at=now, score=score, feedback="Peli suoritettu.")\<close>: a new row
  at the end of the table. Both calls of \<^verbatim>\<open>timezone.now()\<close> give the reading of the
  clock that comes with the request.
\<close>

definition create_submission ::
  "column \<Rightarrow> Store \<Rightarrow> nat \<Rightarrow> nat \<Rightarrow> datetime \<Rightarrow> json \<Rightarrow> pyexn + Store" where
  "create_submission col db aid uid t sc =
     (case score_column col sc of
        Inl e \<Rightarrow> Inl e
      | Inr v \<Rightarrow>
          Inr (db\<lparr>submissions := submissions db @
                 [\<lparr>sub_assignment_id = aid, sub_student_id = uid,
                   sub_status = Submission_SUBMITTED, submitted_at = t, graded_at = t,
                   score = v, feedback = ''Peli suoritettu.''\<rparr>]\<rparr>))"

text \<open>\<^verbatim>\<open>existing_sub.score = score; existing_sub.save(update_fields=['score'])\<close>.\<close>

definition save_score :: "Store \<Rightarrow> nat \<Rightarrow> rat option \<Rightarrow> Store" where
  "save_score db pk v =
     db\<lparr>submissions := (submissions db)[pk := (submissions db ! pk)\<lparr>score := v\<rparr>]\<rparr>"

text \<open>\<^verbatim>\<open>assignment.status = s; assignment.save(update_fields=['status'])\<close>.\<close>

definition save_status :: "Store \<Rightarrow> nat \<Rightarrow> Assignment \<Rightarrow> Status \<Rightarrow> Store" where
  "save_status db aid a s = db\<lparr>assignments := (assignments db)(aid \<mapsto> a\<lparr>status := s\<rparr>)\<rparr>"

section \<open>The game-completion view\<close>

datatype game_type = quiz | hangman | memory

text \<open>
  Lines 259 to 266: the type of the game from the keys of the structured content;
  \<open>None\<close> is the branch that answers "Tuntematon pelityyppi".
\<close>

definition game_type_of :: "dict \<Rightarrow> game_type option" where
  "game_type_of game_data =
     (if has_key ''levels'' game_data then Some quiz
      else if has_key ''word'' game_data \<or> has_key ''words'' game_data then Some hangman
      else if has_key ''pairs'' game_data then Some memory
      else None)"

text \<open>
  The request as the view reads it: the authenticated user, the bytes of the body as
  \<^verbatim>\<open>json.loads\<close> sees them (bytes that do not decode, text that is not JSON, or the parsed
  value), and the reading of the clock. The decorators \<^verbatim>\<open>require_POST\<close> and
  \<^verbatim>\<open>login_required\<close> belong to the framework: the model starts in the body of the view.
  The \<^verbatim>\<open>print\<close> to the console is not part of the state.
\<close>

datatype body = Undecodable | NotJSON | Json json

record complete_request =
  user_id :: nat
  body :: body
  now :: datetime

text \<open>\<^verbatim>\<open>assignment.material.structured_content or {}\<close>: null and the empty dict give \<^verbatim>\<open>{}\<close>.\<close>

definition content_or_empty :: "Material \<Rightarrow> dict" where
  "content_or_empty m = (case structured_content m of None \<Rightarrow> [] | Some d \<Rightarrow> if d \<noteq> [] then d else [])"

definition error_response :: "string \<Rightarrow> response" where
  "error_response msg = JsonResponse [(''status'', JStr ''error''), (''message'', JStr msg)] 400"

text \<open>\<^verbatim>\<open>get_object_or_404(Assignment, id=assignment_id, student=request.user)\<close>.\<close>

definition get_own_assignment :: "Store \<Rightarrow> nat \<Rightarrow> nat \<Rightarrow> Assignment option" where
  "get_own_assignment db aid uid =
     (case assignments db aid of
        None \<Rightarrow> None
      | Some a \<Rightarrow> if student_id a = uid then Some a else None)"

text \<open>
  \<^verbatim>\<open>existing_sub and existing_sub.score and existing_sub.score >= 80\<close> (line 279), and
  \<^verbatim>\<open>existing_sub.score or 0\<close> (line 286).
\<close>

definition stored_pass :: "(nat \<times> Submission) option \<Rightarrow> bool" where
  "stored_pass existing_sub =
     (case existing_sub of
        None \<Rightarrow> False
      | Some (pk, sub) \<Rightarrow>
          (case score sub of None \<Rightarrow> False | Some r \<Rightarrow> r \<noteq> 0 \<and> 80 \<le> r))"

definition score_or_0 :: "rat option \<Rightarrow> rat" where
  "score_or_0 v = (case v of None \<Rightarrow> 0 | Some r \<Rightarrow> if r \<noteq> 0 then r else 0)"

text \<open>
  Lines 286 to 299: when there is no submission, or the stored score is below the new
  one, the score is written to the existing row, or a row is created when there is none.
\<close>

definition record_retry ::
  "column \<Rightarrow> Store \<Rightarrow> complete_request \<Rightarrow> nat \<Rightarrow> (nat \<times> Submission) option \<Rightarrow> json \<Rightarrow> pyexn + Store" where
  "record_retry col db request assignment_id existing_sub sc =
     (case existing_sub of
        None \<Rightarrow> create_submission col db assignment_id (user_id request) (now request) sc
      | Some (pk, sub) \<Rightarrow>
          (case py_lt (score_or_0 (score sub)) sc of
             Inl e \<Rightarrow> Inl e
           | Inr True \<Rightarrow> Inr (save_score db pk (number sc))
           | Inr False \<Rightarrow> Inr db))"

text \<open>Lines 276 to 321: the assignment is already GRADED.\<close>

definition repeat_attempt ::
  "column \<Rightarrow> Store \<Rightarrow> complete_request \<Rightarrow> nat \<Rightarrow> Assignment \<Rightarrow> game_type \<Rightarrow> json \<Rightarrow> response \<times> Store" where
  "repeat_attempt col db request assignment_id assignment gt sc =
     (let existing_sub = submissions_last db assignment_id in
      if gt = quiz then
        if stored_pass existing_sub then
          (JsonResponse [(''status'', JStr ''already_completed''), (''completed'', JBool True),
                         (''score'', json_of_score (score (snd (the existing_sub))))] 200, db)
        else
          (case record_retry col db request assignment_id existing_sub sc of
             Inl e \<Rightarrow> (Unhandled e, db)
           | Inr db1 \<Rightarrow>
               (case py_ge sc 80 of
                  Inl e \<Rightarrow> (Unhandled e, db1)
                | Inr True \<Rightarrow>
                    (JsonResponse [(''status'', JStr ''success''), (''score'', sc),
                                   (''completed'', JBool True)] 200,
                     save_status db1 assignment_id assignment GRADED)
                | Inr False \<Rightarrow>
                    (JsonResponse [(''status'', JStr ''retry''), (''score'', sc),
                                   (''completed'', JBool False)] 200, db1)))
      else
        (JsonResponse [(''status'', JStr ''already_completed''), (''completed'', JBool True),
                       (''score'', (case existing_sub of
                                      None \<Rightarrow> JNum 0
                                    | Some (pk, sub) \<Rightarrow> json_of_score (score sub)))] 200, db))"

text \<open>Lines 323 to 354: the first attempt.\<close>

definition first_attempt ::
  "column \<Rightarrow> Store \<Rightarrow> complete_request \<Rightarrow> nat \<Rightarrow> Assignment \<Rightarrow> game_type \<Rightarrow> json \<Rightarrow> response \<times> Store" where
  "first_attempt col db request assignment_id assignment gt sc =
     (case (if gt = quiz then
              (case py_ge sc 80 of
                 Inl e \<Rightarrow> Inl e
               | Inr True \<Rightarrow> Inr (save_status db assignment_id assignment GRADED, True)
               | Inr False \<Rightarrow> Inr (db, False))
            else Inr (save_status db assignment_id assignment GRADED, True)) of
        Inl e \<Rightarrow> (Unhandled e, db)
      | Inr (db1, completed) \<Rightarrow>
          (case create_submission col db1 assignment_id (user_id request) (now request) sc of
             Inl e \<Rightarrow> (Unhandled e, db1)
           | Inr db2 \<Rightarrow>
               (JsonResponse [(''status'', JStr ''success''), (''score'', sc),
                              (''completed'', JBool completed)] 200, db2)))"

definition complete_game_ajax_view ::
  "column \<Rightarrow> Store \<Rightarrow> complete_request \<Rightarrow> nat \<Rightarrow> response \<times> Store" where
  "complete_game_ajax_view col db request assignment_id =
     (case get_own_assignment db assignment_id (user_id request) of
        None \<Rightarrow> (Http404, db)
      | Some assignment \<Rightarrow>
          (case material assignment of
             None \<Rightarrow>
               (error_response (''Virheellinen pelisis'' @ [CHR 0xC3, CHR 0xA4] @ ''lt''
                                  @ [CHR 0xC3, CHR 0xB6]), db)
           | Some m \<Rightarrow>
               (let game_data = content_or_empty m in
                case game_type_of game_data of
                  None \<Rightarrow> (error_response ''Tuntematon pelityyppi'', db)
                | Some gt \<Rightarrow>
                    (case body request of
                       Undecodable \<Rightarrow> (Unhandled UnicodeDecodeError, db)
                     | NotJSON \<Rightarrow> (error_response ''Virheellinen JSON'', db)
                     | Json (JObj data) \<Rightarrow>
                         (let sc = dict_get data ''score'' (JNum 0) in
                          if status assignment = GRADED
                          then repeat_attempt col db request assignment_id assignment gt sc
                          else first_attempt col db request assignment_id assignment gt sc)
                     | Json _ \<Rightarrow> (Unhandled AttributeError, db)))))"

section \<open>The autosave view\<close>

text \<open>
  \<^verbatim>\<open>str.strip()\<close> removes the code points for which \<^verbatim>\<open>str.isspace()\<close> holds from both
  ends.
\<close>

definition isspace :: "nat \<Rightarrow> bool" where
  "isspace c =
     ((9 \<le> c \<and> c \<le> 13) \<or> (28 \<le> c \<and> c \<le> 32) \<or> c = 0x85 \<or> c = 0xA0 \<or> c = 0x1680
      \<or> (0x2000 \<le> c \<and> c \<le> 0x200A) \<or> c = 0x2028 \<or> c = 0x2029 \<or> c = 0x202F
      \<or> c = 0x205F \<or> c = 0x3000)"

definition strip :: "pystr \<Rightarrow> pystr" where
  "strip s = rev (dropWhile isspace (rev (dropWhile isspace s)))"

text \<open>
  The request of the autosave view: the user, the form field \<^verbatim>\<open>response\<close>
  (\<^verbatim>\<open>request.POST.get("response")\<close>, \<open>None\<close> when the field is missing) and the clock.
\<close>

record autosave_request =
  autosave_user_id :: nat
  post_response :: "pystr option"
  autosave_now :: datetime

definition assignment_autosave_view :: "Store \<Rightarrow> autosave_request \<Rightarrow> nat \<Rightarrow> response \<times> Store" where
  "assignment_autosave_view db request assignment_id =
     (case assignments db assignment_id of
        None \<Rightarrow> (Http404, db)
      | Some assignment \<Rightarrow>
          if student_id assignment \<noteq> autosave_user_id request then
            (JsonResponse [(''ok'', JBool False), (''error'', JStr ''forbidden'')] 403, db)
          else if status assignment = SUBMITTED \<or> status assignment = GRADED then
            (JsonResponse [(''ok'', JBool False), (''error'', JStr ''locked'')] 400, db)
          else
            (let draft = strip (case post_response request of
                                  None \<Rightarrow> []
                                | Some s \<Rightarrow> if s \<noteq> [] then s else []);
                 a1 = assignment\<lparr>draft_response := draft\<rparr>;
                 a2 = (if draft \<noteq> [] \<and> status a1 = ASSIGNED
                       then a1\<lparr>status := IN_PROGRESS\<rparr> else a1)
             in (JsonResponse [(''ok'', JBool True),
                               (''saved_at'', JStr (isoformat (autosave_now request)))] 200,
                 db\<lparr>assignments := (assignments db)(assignment_id \<mapsto> a2)\<rparr>)))"

section \<open>The generation view\<close>

text \<open>
  The content generator is an external collaborator. Its answer to one call is either
  an exception with its text (the call fails, the answer has no content, or
  \<^verbatim>\<open>json.loads(content)\<close> fails), or the value that \<^verbatim>\<open>json.loads\<close> returns. The text of
  the prompt is sent to the collaborator and is not part of the result.
\<close>

datatype reply = Raises string | Payload json

text \<open>
  \<^verbatim>\<open>question_counts.get(difficulty, 10)\<close> hashes the difficulty: a list or a dict
  raises \<^verbatim>\<open>TypeError\<close>.
\<close>

fun unhashable :: "json \<Rightarrow> string option" where
  "unhashable (JArr xs) = Some (''unhashable type: '' @ [CHR 0x27] @ ''list'' @ [CHR 0x27])"
| "unhashable (JObj d) = Some (''unhashable type: '' @ [CHR 0x27] @ ''dict'' @ [CHR 0x27])"
| "unhashable _ = None"

definition client_reply :: "reply \<Rightarrow> string + json" where
  "client_reply llm = (case llm of Raises msg \<Rightarrow> Inl msg | Payload p \<Rightarrow> Inr p)"

text \<open>The result is the text of the exception raised (\<open>Inl\<close>), or the dict returned.\<close>

definition generate_game_content :: "reply \<Rightarrow> json \<Rightarrow> json \<Rightarrow> json \<Rightarrow> string + json" where
  "generate_game_content llm topic game_type difficulty =
     (if game_type = JStr ''quiz'' then
        (case unhashable difficulty of
           Some msg \<Rightarrow> Inl msg
         | None \<Rightarrow> client_reply llm)
      else if game_type = JStr ''hangman'' then client_reply llm
      else if game_type = JStr ''memory'' then client_reply llm
      else Inl ''Tuntematon pelityyppi'')"

text \<open>
  The request of the generation view: the attribute \<^verbatim>\<open>role\<close> of the user (\<open>None\<close> when
  the user has none), and the body: either \<^verbatim>\<open>json.loads(request.body)\<close> or the first
  \<^verbatim>\<open>data.get\<close> raises, with the text of the exception, or the body is a dict.
\<close>

datatype generate_body = Unreadable string | Dict dict

record generate_request =
  role :: "string option"
  generate_body :: generate_body

text \<open>
  Two behaviours of the Python runtime are parameters of the model: \<^verbatim>\<open>str.capitalize\<close>
  (the case mapping of Unicode), and the name under which the type of a number shows
  in the text of an exception (\<^verbatim>\<open>int\<close> or \<^verbatim>\<open>float\<close>: the JSON text of the number
  decides, which its value does not record).
\<close>

record python =
  capitalize :: "string \<Rightarrow> string"
  number_type :: "rat \<Rightarrow> string"

definition type_name :: "python \<Rightarrow> json \<Rightarrow> string" where
  "type_name py v =
     (case v of
        JNull \<Rightarrow> ''NoneType''
      | JBool b \<Rightarrow> ''bool''
      | JNum r \<Rightarrow> number_type py r
      | JStr s \<Rightarrow> ''str''
      | JArr xs \<Rightarrow> ''list''
      | JObj d \<Rightarrow> ''dict'')"

text \<open>The text of the \<^verbatim>\<open>AttributeError\<close> of \<^verbatim>\<open>v.attr\<close>.\<close>

definition no_attribute :: "python \<Rightarrow> json \<Rightarrow> string \<Rightarrow> string" where
  "no_attribute py v attr =
     [CHR 0x27] @ type_name py v @ [CHR 0x27] @ '' object has no attribute ''
       @ [CHR 0x27] @ attr @ [CHR 0x27]"

text \<open>
  \<^verbatim>\<open>s[:n]\<close> on a str kept as UTF-8: the first \<open>n\<close> code points. A byte from 0x80 to
  0xBF continues the code point before it.
\<close>

definition continuation :: "char \<Rightarrow> bool" where
  "continuation c = (128 \<le> (of_char c :: nat) \<and> (of_char c :: nat) < 192)"

fun take_code_points :: "nat \<Rightarrow> string \<Rightarrow> string" where
  "take_code_points n [] = []"
| "take_code_points n (c # cs) =
     (if continuation c then c # take_code_points n cs
      else if n = 0 then []
      else c # take_code_points (n - 1) cs)"

text \<open>The subjects of the curriculum (lines 123 to 141), and the default subject.\<close>

definition default_subject :: string where
  "default_subject = ''Ymp'' @ [CHR 0xC3, CHR 0xA4] @ ''rist'' @ [CHR 0xC3, CHR 0xB6] @ ''oppi''"

definition VALID_SUBJECTS :: "string list" where
  "VALID_SUBJECTS =
     [[CHR 0xC3, CHR 0x84] @ ''idinkieli ja kirjallisuus'',
      ''Matematiikka'',
      default_subject,
      ''Ruotsi'',
      ''Englanti'',
      ''Fysiikka'',
      ''Kemia'',
      ''Maantieto'',
      ''Kotitalous'',
      ''Terveystieto'',
      ''Liikunta'',
      ''Musiikki'',
      ''Kuvataide'',
      ''K'' @ [CHR 0xC3, CHR 0xA4] @ ''sity'' @ [CHR 0xC3, CHR 0xB6],
      ''Uskonto tai el'' @ [CHR 0xC3, CHR 0xA4] @ ''m'' @ [CHR 0xC3, CHR 0xA4]
        @ ''nkatsomustieto'',
      ''Historia'',
      ''Yhteiskuntaoppi'']"

text \<open>
  \<^verbatim>\<open>f'{game_name.capitalize()}: {topic[:40]}'\<close>: the title of the fallback, which is
  also the default handed to \<^verbatim>\<open>result.get('title', ...)\<close>. A \<open>game_name\<close> that is not a
  str has no \<^verbatim>\<open>capitalize\<close>: the result is then the text of the \<^verbatim>\<open>AttributeError\<close>.
\<close>

definition fallback_title :: "python \<Rightarrow> json \<Rightarrow> string \<Rightarrow> string + string" where
  "fallback_title py game_name topic =
     (case game_name of
        JStr s \<Rightarrow> Inr (capitalize py s @ '': '' @ take_code_points 40 topic)
      | _ \<Rightarrow> Inl (no_attribute py game_name ''capitalize''))"

text \<open>
  The dict that \<^verbatim>\<open>generate_game_metadata\<close> returns when the title of the fallback is
  \<open>dflt\<close>. \<open>meta_llm\<close> is the answer of the collaborator to the metadata prompt. When
  the call raises, or the answer is not a dict (\<^verbatim>\<open>result.get\<close> raises), the handler
  returns the fallback; otherwise the title of the answer, and its subject when it is
  one of the curriculum.
\<close>

definition metadata_dict :: "string \<Rightarrow> reply \<Rightarrow> json" where
  "metadata_dict dflt meta_llm =
     (case meta_llm of
        Payload (JObj result) \<Rightarrow>
          (let returned_subject = dict_get result ''subject'' (JStr default_subject)
           in JObj [(''title'', dict_get result ''title'' (JStr dflt)),
                    (''subject'',
                     (if returned_subject \<in> set (map JStr VALID_SUBJECTS)
                      then returned_subject else JStr default_subject))])
      | _ \<Rightarrow> JObj [(''title'', JStr dflt), (''subject'', JStr default_subject)])"

text \<open>
  \<^verbatim>\<open>generate_game_metadata(game_name, topic)\<close>, lines 108 to 190. \<open>topic\<close> is a str:
  the view passes the game type, after \<^verbatim>\<open>generate_game_content\<close> has accepted it.
  \<open>game_name\<close> is whatever the view passes, the topic of the request. When it is not a
  str, the default of \<^verbatim>\<open>result.get('title', ...)\<close>, or an earlier failure, takes the
  function into its handler, and the fallback raises again: the result is \<open>Inl\<close> with
  the text of that exception.
\<close>

definition generate_game_metadata :: "python \<Rightarrow> json \<Rightarrow> string \<Rightarrow> reply \<Rightarrow> string + json" where
  "generate_game_metadata py game_name topic meta_llm =
     (case fallback_title py game_name topic of
        Inl msg \<Rightarrow> Inl msg
      | Inr dflt \<Rightarrow> Inr (metadata_dict dflt meta_llm))"

text \<open>
  The view, lines 206 to 232. The call is \<^verbatim>\<open>generate_game_metadata(topic, game_type)\<close>:
  the topic of the request is the \<open>game_name\<close> and the game type is the \<open>topic\<close>. The
  last branch is never taken: \<^verbatim>\<open>generate_game_content\<close> raises for a game type that is
  not a str.
\<close>

definition generate_game_ajax_view ::
  "python \<Rightarrow> generate_request \<Rightarrow> reply \<Rightarrow> reply \<Rightarrow> response" where
  "generate_game_ajax_view py request llm meta_llm =
     (if role request \<noteq> Some ''TEACHER'' then
        JsonResponse [(''error'', JStr (''Vain opettajat voivat luoda pelej''
                                          @ [CHR 0xC3, CHR 0xA4] @ ''.''))] 403
      else
        (case generate_body request of
           Unreadable msg \<Rightarrow> JsonResponse [(''error'', JStr msg)] 500
         | Dict data \<Rightarrow>
             (let topic = dict_get data ''topic'' JNull;
                  game_type = dict_get data ''game_type'' JNull;
                  difficulty = dict_get data ''difficulty'' (JStr ''medium'')
              in if \<not> truthy topic \<or> \<not> truthy game_type then
                   JsonResponse [(''error'', JStr ''Aihe ja pelityyppi ovat pakollisia.'')] 400
                 else
                   (case generate_game_content llm topic game_type difficulty of
                      Inl msg \<Rightarrow> JsonResponse [(''error'', JStr msg)] 500
                    | Inr game_data \<Rightarrow>
                        (case game_type of
                           JStr g \<Rightarrow>
                             (case generate_game_metadata py topic g meta_llm of
                                Inl msg \<Rightarrow> JsonResponse [(''error'', JStr msg)] 500
                              | Inr metadata \<Rightarrow>
                                  JsonResponse [(''success'', JBool True),
                                                (''game_data'', game_data),
                                                (''metadata'', metadata)] 200)
                         | _ \<Rightarrow> JsonResponse [(''error'', JStr ''Tuntematon pelityyppi'')] 500)))))"

section \<open>Example states\<close>

text \<open>
  A store with one assignment, number 1 of student 7, on a material with the given
  structured content; a submission of that assignment; a completion request of that
  student.
\<close>

definition demo_assignment :: "dict \<Rightarrow> Status \<Rightarrow> Assignment" where
  "demo_assignment content st =
     \<lparr>student_id = 7, status = st, draft_response = [],
      material = Some \<lparr>structured_content = Some content\<rparr>\<rparr>"

definition demo_submission :: "rat option \<Rightarrow> Submission" where
  "demo_submission v =
     \<lparr>sub_assignment_id = 1, sub_student_id = 7, sub_status = Submission_SUBMITTED,
      submitted_at = ''2025-01-01T10:00:00'', graded_at = ''2025-01-01T10:00:00'',
      score = v, feedback = ''Peli suoritettu.''\<rparr>"

definition demo_store :: "dict \<Rightarrow> Status \<Rightarrow> Submission list \<Rightarrow> Store" where
  "demo_store content st subs =
     \<lparr>assignments = [1 \<mapsto> demo_assignment content st], submissions = subs\<rparr>"

definition demo_request :: "json \<Rightarrow> complete_request" where
  "demo_request j = \<lparr>user_id = 7, body = Json j, now = ''2025-01-02T09:30:00''\<rparr>"

text \<open>A column that converts the str "90" and refuses every other value that is not a number.\<close>

definition demo_column :: column where
  "demo_column v = (if v = JStr ''90'' then Inr (Some 90) else Inl ValueError)"

definition demo_draft_assignment :: "Status \<Rightarrow> pystr \<Rightarrow> Assignment" where
  "demo_draft_assignment st draft =
     \<lparr>student_id = 7, status = st, draft_response = draft, material = None\<rparr>"

definition demo_autosave :: "pystr \<Rightarrow> autosave_request" where
  "demo_autosave s =
     \<lparr>autosave_user_id = 7, post_response = Some s, autosave_now = ''2025-01-02T09:30:00''\<rparr>"

definition demo_generate :: generate_request where
  "demo_generate =
     \<lparr>role = Some ''TEACHER'',
      generate_body = Dict [(''topic'', JStr ''avaruus''), (''game_type'', JStr ''quiz'')]\<rparr>"

text \<open>
  The answer of the collaborator to the metadata prompt in the examples, and a runtime
  that capitalises the topic of the examples as Python does.
\<close>

definition demo_metadata :: json where
  "demo_metadata = JObj [(''title'', JStr ''Avaruus''), (''subject'', JStr ''Fysiikka'')]"

definition demo_python :: python where
  "demo_python =
     \<lparr>capitalize = (\<lambda>s. if s = ''avaruus'' then ''Avaruus'' else s),
      number_type = (\<lambda>r. ''int'')\<rparr>"

section \<open>Auxiliary facts\<close>

lemma submissions_last_SomeD:
  assumes "submissions_last db aid = Some (pk, sub)"
  shows "pk < length (submissions db) \<and> submissions db ! pk = sub \<and> sub_assignment_id sub = aid"
proof -
  let ?xs = "filter (\<lambda>(pk, s). sub_assignment_id s = aid) (enumerate 0 (submissions db))"
  from assms have ne: "?xs \<noteq> []" and l: "last ?xs = (pk, sub)"
    by (auto simp: submissions_last_def split: list.splits)
  from ne have "last ?xs \<in> set ?xs" by (rule last_in_set)
  with l have "(pk, sub) \<in> set ?xs" by simp
  then show ?thesis by (auto simp: in_set_enumerate_eq)
qed

lemma dict_get_absent: "\<not> has_key k d \<Longrightarrow> dict_get d k dflt = dflt"
proof -
  assume "\<not> has_key k d"
  then have "map_of (rev d) k = None"
    by (simp add: has_key_def map_of_eq_None_iff)
  then show ?thesis by (simp add: dict_get_def)
qed

lemma stored_pass_iff:
  "stored_pass (Some (pk, sub)) = (\<exists>r. score sub = Some r \<and> 80 \<le> r)"
  by (auto simp: stored_pass_def split: option.splits)

lemma score_column_simps [simp]:
  "score_column col JNull = Inr None"
  "score_column col (JNum r) = Inr (Some r)"
  "score_column col (JBool b) = Inr (Some (if b then 1 else 0))"
  "score_column col (JStr s) = col (JStr s)"
  "score_column col (JArr xs) = col (JArr xs)"
  "score_column col (JObj d) = col (JObj d)"
  by (simp_all add: score_column_def)

lemma complete_game_request_cong:
  assumes "user_id r = user_id r'" and "now r = now r'"
    and "body r = Json (JObj d)" and "body r' = Json (JObj d')"
    and "dict_get d ''score'' (JNum 0) = dict_get d' ''score'' (JNum 0)"
  shows "complete_game_ajax_view col db r aid = complete_game_ajax_view col db r' aid"
  unfolding complete_game_ajax_view_def first_attempt_def repeat_attempt_def record_retry_def
    assms body.case json.case
  by (rule refl)

lemma first_attempt_not_parse_error:
  "fst (first_attempt col db req aid a gt (JNum n)) \<noteq> error_response ''Virheellinen JSON''"
  by (auto simp: first_attempt_def py_ge_def create_submission_def error_response_def
        split: bool.splits)

lemma repeat_attempt_not_parse_error:
  "fst (repeat_attempt col db req aid a gt (JNum n)) \<noteq> error_response ''Virheellinen JSON''"
  by (auto simp: repeat_attempt_def Let_def py_ge_def error_response_def
        split: sum.splits bool.splits)

lemma score_or_0_eq: "score_or_0 v = (case v of None \<Rightarrow> 0 | Some r \<Rightarrow> r)"
  by (simp add: score_or_0_def split: option.splits)

section \<open>The first attempt\<close>

text \<open>
  Claim C1. On an assignment of the caller that is not GRADED, with a material of a
  recognised game type, a request whose body is a JSON object with the numeric score
  \<open>n\<close> (0 when the body has no score) always appends a Submission recording \<open>n\<close>. For a
  quiz the assignment becomes GRADED and \<open>completed\<close> is true exactly when \<open>80 \<le> n\<close>;
  below 80 the assignments are left as they were, so the status stays non-GRADED, and
  \<open>completed\<close> is false. For hangman and memory the assignment becomes GRADED and
  \<open>completed\<close> is true for every \<open>n\<close>.
\<close>

theorem first_attempt_grading:
  assumes "assignments db aid = Some a" and "student_id a = user_id req"
    and "material a = Some m" and "game_type_of (content_or_empty m) = Some gt"
    and "body req = Json (JObj data)" and "dict_get data ''score'' (JNum 0) = JNum n"
    and "status a \<noteq> GRADED"
  shows "complete_game_ajax_view col db req aid =
           (JsonResponse [(''status'', JStr ''success''), (''score'', JNum n),
                          (''completed'', JBool (gt \<noteq> quiz \<or> 80 \<le> n))] 200,
            \<lparr>assignments = (if gt \<noteq> quiz \<or> 80 \<le> n
                             then (assignments db)(aid \<mapsto> a\<lparr>status := GRADED\<rparr>)
                             else assignments db),
             submissions = submissions db @
               [\<lparr>sub_assignment_id = aid, sub_student_id = user_id req,
                 sub_status = Submission_SUBMITTED, submitted_at = now req,
                 graded_at = now req, score = Some n, feedback = ''Peli suoritettu.''\<rparr>]\<rparr>)"
  using assms
  by (cases db)
     (simp add: complete_game_ajax_view_def get_own_assignment_def first_attempt_def
        py_ge_def create_submission_def save_status_def Let_def)

text \<open>
  The quiz of the example store, in progress: a score of 79 leaves it in progress, a
  score of 80 grades it, and a row is added both times.
\<close>

theorem first_attempt_grading_witness:
  "assignments (demo_store [(''levels'', JArr [])] IN_PROGRESS []) 1
     = Some (demo_assignment [(''levels'', JArr [])] IN_PROGRESS)
   \<and> student_id (demo_assignment [(''levels'', JArr [])] IN_PROGRESS)
       = user_id (demo_request (JObj [(''score'', JNum 79)]))
   \<and> material (demo_assignment [(''levels'', JArr [])] IN_PROGRESS)
       = Some \<lparr>structured_content = Some [(''levels'', JArr [])]\<rparr>
   \<and> game_type_of (content_or_empty \<lparr>structured_content = Some [(''levels'', JArr [])]\<rparr>)
       = Some quiz
   \<and> body (demo_request (JObj [(''score'', JNum 79)])) = Json (JObj [(''score'', JNum 79)])
   \<and> dict_get [(''score'', JNum 79)] ''score'' (JNum 0) = JNum 79
   \<and> status (demo_assignment [(''levels'', JArr [])] IN_PROGRESS) \<noteq> GRADED
   \<and> complete_game_ajax_view demo_column (demo_store [(''levels'', JArr [])] IN_PROGRESS [])
        (demo_request (JObj [(''score'', JNum 79)])) 1
      = (JsonResponse [(''status'', JStr ''success''), (''score'', JNum 79),
                       (''completed'', JBool False)] 200,
         demo_store [(''levels'', JArr [])] IN_PROGRESS
           [\<lparr>sub_assignment_id = 1, sub_student_id = 7,
             sub_status = Submission_SUBMITTED, submitted_at = ''2025-01-02T09:30:00'',
             graded_at = ''2025-01-02T09:30:00'', score = Some 79,
             feedback = ''Peli suoritettu.''\<rparr>])
   \<and> complete_game_ajax_view demo_column (demo_store [(''levels'', JArr [])] IN_PROGRESS [])
        (demo_request (JObj [(''score'', JNum 80)])) 1
      = (JsonResponse [(''status'', JStr ''success''), (''score'', JNum 80),
                       (''completed'', JBool True)] 200,
         demo_store [(''levels'', JArr [])] GRADED
           [\<lparr>sub_assignment_id = 1, sub_student_id = 7,
             sub_status = Submission_SUBMITTED, submitted_at = ''2025-01-02T09:30:00'',
             graded_at = ''2025-01-02T09:30:00'', score = Some 80,
             feedback = ''Peli suoritettu.''\<rparr>])"
  using
    first_attempt_grading
      [of "demo_store [(''levels'', JArr [])] IN_PROGRESS []" 1
          "demo_assignment [(''levels'', JArr [])] IN_PROGRESS"
          "demo_request (JObj [(''score'', JNum 79)])"
          "\<lparr>structured_content = Some [(''levels'', JArr [])]\<rparr>" quiz
          "[(''score'', JNum 79)]" 79, where col = demo_column]
    first_attempt_grading
      [of "demo_store [(''levels'', JArr [])] IN_PROGRESS []" 1
          "demo_assignment [(''levels'', JArr [])] IN_PROGRESS"
          "demo_request (JObj [(''score'', JNum 80)])"
          "\<lparr>structured_content = Some [(''levels'', JArr [])]\<rparr>" quiz
          "[(''score'', JNum 80)]" 80, where col = demo_column]
  by (simp add: demo_assignment_def demo_submission_def demo_store_def demo_request_def
        content_or_empty_def game_type_of_def has_key_def dict_get_def)

section \<open>Repeated attempts on a graded assignment\<close>

text \<open>
  Claim C2. On a GRADED quiz assignment of the caller whose latest submission has a
  score \<open>r\<close> with \<open>80 \<le> r\<close>, every request whose body is a JSON object, whatever score
  it carries, is answered \<open>already_completed\<close> with \<open>completed\<close> true and the stored
  score \<open>r\<close>, and the store is returned as it was: no row is created or updated and the
  assignment is unchanged.
\<close>

theorem graded_quiz_already_completed:
  assumes "assignments db aid = Some a" and "student_id a = user_id req"
    and "material a = Some m" and "game_type_of (content_or_empty m) = Some quiz"
    and "status a = GRADED" and "body req = Json (JObj data)"
    and "submissions_last db aid = Some (pk, sub)" and "score sub = Some r" and "80 \<le> r"
  shows "complete_game_ajax_view col db req aid =
           (JsonResponse [(''status'', JStr ''already_completed''), (''completed'', JBool True),
                          (''score'', JNum r)] 200, db)"
proof -
  from assms have "stored_pass (submissions_last db aid)"
    by (simp add: stored_pass_iff)
  with assms show ?thesis
    by (simp add: complete_game_ajax_view_def get_own_assignment_def repeat_attempt_def
          Let_def json_of_score_def)
qed

text \<open>A graded quiz with a stored score of 90: a new score of 100 changes nothing.\<close>

theorem graded_quiz_already_completed_witness:
  "assignments (demo_store [(''levels'', JArr [])] GRADED [demo_submission (Some 90)]) 1
     = Some (demo_assignment [(''levels'', JArr [])] GRADED)
   \<and> student_id (demo_assignment [(''levels'', JArr [])] GRADED)
       = user_id (demo_request (JObj [(''score'', JNum 100)]))
   \<and> material (demo_assignment [(''levels'', JArr [])] GRADED)
       = Some \<lparr>structured_content = Some [(''levels'', JArr [])]\<rparr>
   \<and> game_type_of (content_or_empty \<lparr>structured_content = Some [(''levels'', JArr [])]\<rparr>)
       = Some quiz
   \<and> status (demo_assignment [(''levels'', JArr [])] GRADED) = GRADED
   \<and> body (demo_request (JObj [(''score'', JNum 100)])) = Json (JObj [(''score'', JNum 100)])
   \<and> submissions_last (demo_store [(''levels'', JArr [])] GRADED [demo_submission (Some 90)]) 1
       = Some (0, demo_submission (Some 90))
   \<and> score (demo_submission (Some 90)) = Some 90 \<and> (80::rat) \<le> 90
   \<and> complete_game_ajax_view demo_column
        (demo_store [(''levels'', JArr [])] GRADED [demo_submission (Some 90)])
        (demo_request (JObj [(''score'', JNum 100)])) 1
      = (JsonResponse [(''status'', JStr ''already_completed''), (''completed'', JBool True),
                       (''score'', JNum 90)] 200,
         demo_store [(''levels'', JArr [])] GRADED [demo_submission (Some 90)])"
  using
    graded_quiz_already_completed
      [of "demo_store [(''levels'', JArr [])] GRADED [demo_submission (Some 90)]" 1
          "demo_assignment [(''levels'', JArr [])] GRADED"
          "demo_request (JObj [(''score'', JNum 100)])"
          "\<lparr>structured_content = Some [(''levels'', JArr [])]\<rparr>"
          "[(''score'', JNum 100)]" 0 "demo_submission (Some 90)" 90, where col = demo_column]
  by (simp add: demo_assignment_def demo_submission_def demo_store_def demo_request_def
        content_or_empty_def game_type_of_def has_key_def
        submissions_last_def)

text \<open>
  Claim C3. On a GRADED quiz assignment of the caller whose latest submission, if there
  is one, has no score of 80 or more, a request with the numeric score \<open>n\<close> writes \<open>n\<close>
  into the existing row exactly when \<open>n\<close> exceeds the score stored in that row (a row
  without a score counts as 0) and leaves the rows as they are when it does not; it
  creates a row only when the assignment has none: with an existing row the table
  keeps its length. The answer is \<open>retry\<close> with \<open>completed\<close> false when \<open>n < 80\<close>, and
  \<open>success\<close> with \<open>completed\<close> true when \<open>80 \<le> n\<close>; the assignments, and so the status
  GRADED, are unchanged.
\<close>

theorem graded_quiz_retry:
  assumes "assignments db aid = Some a" and "student_id a = user_id req"
    and "material a = Some m" and "game_type_of (content_or_empty m) = Some quiz"
    and "status a = GRADED" and "body req = Json (JObj data)"
    and "dict_get data ''score'' (JNum 0) = JNum n"
    and "\<forall>pk sub r. submissions_last db aid = Some (pk, sub) \<and> score sub = Some r \<longrightarrow> r < 80"
  shows "complete_game_ajax_view col db req aid =
           (JsonResponse [(''status'', JStr (if 80 \<le> n then ''success'' else ''retry'')),
                          (''score'', JNum n), (''completed'', JBool (80 \<le> n))] 200,
            db\<lparr>submissions :=
                 (case submissions_last db aid of
                    None \<Rightarrow> submissions db @
                      [\<lparr>sub_assignment_id = aid, sub_student_id = user_id req,
                        sub_status = Submission_SUBMITTED, submitted_at = now req,
                        graded_at = now req, score = Some n, feedback = ''Peli suoritettu.''\<rparr>]
                  | Some (pk, sub) \<Rightarrow>
                      if (case score sub of None \<Rightarrow> 0 | Some r \<Rightarrow> r) < n
                      then (submissions db)[pk := sub\<lparr>score := Some n\<rparr>]
                      else submissions db)\<rparr>)
         \<and> (submissions_last db aid \<noteq> None \<longrightarrow>
              length (submissions (snd (complete_game_ajax_view col db req aid)))
                = length (submissions db))"
proof -
  have np: "\<not> stored_pass (submissions_last db aid)"
  proof (cases "submissions_last db aid")
    case None
    then show ?thesis by (simp add: stored_pass_def)
  next
    case (Some p)
    then show ?thesis using assms(8) by (cases p) (auto simp: stored_pass_iff)
  qed
  have keep: "\<And>d. assignments d = assignments db \<Longrightarrow> save_status d aid a GRADED = d"
    using assms(1,5) by (simp add: save_status_def fun_upd_idem)
  show ?thesis
  proof (cases "submissions_last db aid")
    case None
    with assms np keep show ?thesis
      by (simp add: complete_game_ajax_view_def get_own_assignment_def repeat_attempt_def
            Let_def record_retry_def create_submission_def  py_ge_def)
  next
    case (Some p)
    obtain pk sub where p: "p = (pk, sub)" by (cases p)
    from Some p have "submissions db ! pk = sub"
      using submissions_last_SomeD by blast
    with Some p assms np keep show ?thesis
      by (simp add: complete_game_ajax_view_def get_own_assignment_def repeat_attempt_def
            Let_def record_retry_def py_lt_def py_ge_def save_score_def score_or_0_eq)
  qed
qed

text \<open>
  A graded quiz with a stored score of 60. A score of 50 does not exceed it: the row
  keeps 60 and the answer is \<open>retry\<close>. A score of 70 is written into the one row and
  answered \<open>retry\<close>; a score of 85 afterwards is written into the same row and answered
  \<open>success\<close>. A row without a score is overwritten by a score of 10, and kept by a
  score of 0.
\<close>

theorem graded_quiz_retry_witness:
  "assignments (demo_store [(''levels'', JArr [])] GRADED [demo_submission (Some 60)]) 1
     = Some (demo_assignment [(''levels'', JArr [])] GRADED)
   \<and> student_id (demo_assignment [(''levels'', JArr [])] GRADED)
       = user_id (demo_request (JObj [(''score'', JNum 70)]))
   \<and> material (demo_assignment [(''levels'', JArr [])] GRADED)
       = Some \<lparr>structured_content = Some [(''levels'', JArr [])]\<rparr>
   \<and> game_type_of (content_or_empty \<lparr>structured_content = Some [(''levels'', JArr [])]\<rparr>)
       = Some quiz
   \<and> status (demo_assignment [(''levels'', JArr [])] GRADED) = GRADED
   \<and> body (demo_request (JObj [(''score'', JNum 70)])) = Json (JObj [(''score'', JNum 70)])
   \<and> dict_get [(''score'', JNum 70)] ''score'' (JNum 0) = JNum 70
   \<and> submissions_last (demo_store [(''levels'', JArr [])] GRADED [demo_submission (Some 60)]) 1
       = Some (0, demo_submission (Some 60))
   \<and> score (demo_submission (Some 60)) = Some 60 \<and> (60::rat) < 80
   \<and> complete_game_ajax_view demo_column
        (demo_store [(''levels'', JArr [])] GRADED [demo_submission (Some 60)])
        (demo_request (JObj [(''score'', JNum 50)])) 1
      = (JsonResponse [(''status'', JStr ''retry''), (''score'', JNum 50),
                       (''completed'', JBool False)] 200,
         demo_store [(''levels'', JArr [])] GRADED [demo_submission (Some 60)])
   \<and> complete_game_ajax_view demo_column
        (demo_store [(''levels'', JArr [])] GRADED [demo_submission (Some 60)])
        (demo_request (JObj [(''score'', JNum 70)])) 1
      = (JsonResponse [(''status'', JStr ''retry''), (''score'', JNum 70),
                       (''completed'', JBool False)] 200,
         demo_store [(''levels'', JArr [])] GRADED [demo_submission (Some 70)])
   \<and> complete_game_ajax_view demo_column
        (demo_store [(''levels'', JArr [])] GRADED [demo_submission (Some 70)])
        (demo_request (JObj [(''score'', JNum 85)])) 1
      = (JsonResponse [(''status'', JStr ''success''), (''score'', JNum 85),
                       (''completed'', JBool True)] 200,
         demo_store [(''levels'', JArr [])] GRADED [demo_submission (Some 85)])
   \<and> complete_game_ajax_view demo_column
        (demo_store [(''levels'', JArr [])] GRADED [demo_submission None])
        (demo_request (JObj [(''score'', JNum 10)])) 1
      = (JsonResponse [(''status'', JStr ''retry''), (''score'', JNum 10),
                       (''completed'', JBool False)] 200,
         demo_store [(''levels'', JArr [])] GRADED [demo_submission (Some 10)])
   \<and> complete_game_ajax_view demo_column
        (demo_store [(''levels'', JArr [])] GRADED [demo_submission None])
        (demo_request (JObj [(''score'', JNum 0)])) 1
      = (JsonResponse [(''status'', JStr ''retry''), (''score'', JNum 0),
                       (''completed'', JBool False)] 200,
         demo_store [(''levels'', JArr [])] GRADED [demo_submission None])"
  using
    graded_quiz_retry
      [of "demo_store [(''levels'', JArr [])] GRADED [demo_submission (Some 60)]" 1
          "demo_assignment [(''levels'', JArr [])] GRADED"
          "demo_request (JObj [(''score'', JNum 50)])"
          "\<lparr>structured_content = Some [(''levels'', JArr [])]\<rparr>"
          "[(''score'', JNum 50)]" 50, where col = demo_column]
    graded_quiz_retry
      [of "demo_store [(''levels'', JArr [])] GRADED [demo_submission (Some 60)]" 1
          "demo_assignment [(''levels'', JArr [])] GRADED"
          "demo_request (JObj [(''score'', JNum 70)])"
          "\<lparr>structured_content = Some [(''levels'', JArr [])]\<rparr>"
          "[(''score'', JNum 70)]" 70, where col = demo_column]
    graded_quiz_retry
      [of "demo_store [(''levels'', JArr [])] GRADED [demo_submission (Some 70)]" 1
          "demo_assignment [(''levels'', JArr [])] GRADED"
          "demo_request (JObj [(''score'', JNum 85)])"
          "\<lparr>structured_content = Some [(''levels'', JArr [])]\<rparr>"
          "[(''score'', JNum 85)]" 85, where col = demo_column]
    graded_quiz_retry
      [of "demo_store [(''levels'', JArr [])] GRADED [demo_submission None]" 1
          "demo_assignment [(''levels'', JArr [])] GRADED"
          "demo_request (JObj [(''score'', JNum 10)])"
          "\<lparr>structured_content = Some [(''levels'', JArr [])]\<rparr>"
          "[(''score'', JNum 10)]" 10, where col = demo_column]
    graded_quiz_retry
      [of "demo_store [(''levels'', JArr [])] GRADED [demo_submission None]" 1
          "demo_assignment [(''levels'', JArr [])] GRADED"
          "demo_request (JObj [(''score'', JNum 0)])"
          "\<lparr>structured_content = Some [(''levels'', JArr [])]\<rparr>"
          "[(''score'', JNum 0)]" 0, where col = demo_column]
  by (simp add: demo_assignment_def demo_submission_def demo_store_def demo_request_def
        content_or_empty_def game_type_of_def has_key_def dict_get_def submissions_last_def)



section \<open>The type of the game\<close>

text \<open>
  Claim C5. When the structured content of the material has none of the keys
  \<open>levels\<close>, \<open>word\<close>, \<open>words\<close> and \<open>pairs\<close> (null and the empty object included), every
  request on an assignment of the caller is answered with status 400 and the message
  "Tuntematon pelityyppi" (unknown game type), whatever its body, and the store is
  returned as it was.
\<close>

theorem unknown_game_type_rejected:
  assumes "assignments db aid = Some a" and "student_id a = user_id req"
    and "material a = Some m"
    and "\<not> has_key ''levels'' (content_or_empty m)"
    and "\<not> has_key ''word'' (content_or_empty m)"
    and "\<not> has_key ''words'' (content_or_empty m)"
    and "\<not> has_key ''pairs'' (content_or_empty m)"
  shows "complete_game_ajax_view col db req aid =
           (JsonResponse [(''status'', JStr ''error''),
                          (''message'', JStr ''Tuntematon pelityyppi'')] 400, db)"
  using assms
  by (simp add: complete_game_ajax_view_def get_own_assignment_def game_type_of_def
        error_response_def)

text \<open>A material whose content has the key \<open>cards\<close> only.\<close>

theorem unknown_game_type_rejected_witness:
  "assignments (demo_store [(''cards'', JArr [])] ASSIGNED []) 1
     = Some (demo_assignment [(''cards'', JArr [])] ASSIGNED)
   \<and> student_id (demo_assignment [(''cards'', JArr [])] ASSIGNED)
       = user_id (demo_request (JObj [(''score'', JNum 100)]))
   \<and> material (demo_assignment [(''cards'', JArr [])] ASSIGNED)
       = Some \<lparr>structured_content = Some [(''cards'', JArr [])]\<rparr>
   \<and> \<not> has_key ''levels'' (content_or_empty \<lparr>structured_content = Some [(''cards'', JArr [])]\<rparr>)
   \<and> \<not> has_key ''word'' (content_or_empty \<lparr>structured_content = Some [(''cards'', JArr [])]\<rparr>)
   \<and> \<not> has_key ''words'' (content_or_empty \<lparr>structured_content = Some [(''cards'', JArr [])]\<rparr>)
   \<and> \<not> has_key ''pairs'' (content_or_empty \<lparr>structured_content = Some [(''cards'', JArr [])]\<rparr>)
   \<and> complete_game_ajax_view demo_column (demo_store [(''cards'', JArr [])] ASSIGNED [])
        (demo_request (JObj [(''score'', JNum 100)])) 1
      = (JsonResponse [(''status'', JStr ''error''),
                       (''message'', JStr ''Tuntematon pelityyppi'')] 400,
         demo_store [(''cards'', JArr [])] ASSIGNED [])"
  using
    unknown_game_type_rejected
      [of "demo_store [(''cards'', JArr [])] ASSIGNED []" 1
          "demo_assignment [(''cards'', JArr [])] ASSIGNED"
          "demo_request (JObj [(''score'', JNum 100)])"
          "\<lparr>structured_content = Some [(''cards'', JArr [])]\<rparr>", where col = demo_column]
  by (simp add: demo_assignment_def demo_submission_def demo_store_def demo_request_def
        content_or_empty_def has_key_def)

text \<open>
  Claim C10. The dispatch is a fixed precedence over the presence of keys: a content
  with the key \<open>levels\<close> is a quiz whatever else it holds; without \<open>levels\<close>, one with
  \<open>word\<close> or \<open>words\<close> is hangman; without these, one with \<open>pairs\<close> is memory. The type
  depends on the set of keys only, not on their order or on the values. So the
  completion view takes the quiz branches for every content with the key \<open>levels\<close>.
\<close>

theorem dispatch_precedence:
  "(has_key ''levels'' d \<longrightarrow> game_type_of d = Some quiz)
   \<and> (\<not> has_key ''levels'' d \<and> (has_key ''word'' d \<or> has_key ''words'' d)
        \<longrightarrow> game_type_of d = Some hangman)
   \<and> (\<not> has_key ''levels'' d \<and> \<not> has_key ''word'' d \<and> \<not> has_key ''words'' d
        \<and> has_key ''pairs'' d \<longrightarrow> game_type_of d = Some memory)
   \<and> (fst ` set d = fst ` set d' \<longrightarrow> game_type_of d = game_type_of d')
   \<and> (has_key ''levels'' (content_or_empty m) \<and> assignments db aid = Some a
        \<and> student_id a = user_id req \<and> material a = Some m \<and> body req = Json (JObj data)
      \<longrightarrow> complete_game_ajax_view col db req aid =
            (if status a = GRADED
             then repeat_attempt col db req aid a quiz (dict_get data ''score'' (JNum 0))
             else first_attempt col db req aid a quiz (dict_get data ''score'' (JNum 0))))"
  by (simp add: game_type_of_def has_key_def complete_game_ajax_view_def
        get_own_assignment_def Let_def)

text \<open>
  A content with both \<open>pairs\<close> and \<open>levels\<close>, in either order, is a quiz: a first
  attempt with a score of 50 is not completed and the assignment is not graded.
\<close>

theorem dispatch_precedence_witness:
  "has_key ''levels'' [(''pairs'', JArr []), (''levels'', JArr [])]
   \<and> has_key ''pairs'' [(''pairs'', JArr []), (''levels'', JArr [])]
   \<and> game_type_of [(''pairs'', JArr []), (''levels'', JArr [])] = Some quiz
   \<and> fst ` set [(''pairs'', JArr []), (''levels'', JArr [])]
       = fst ` set [(''levels'', JNull), (''pairs'', JNull)]
   \<and> game_type_of [(''pairs'', JArr []), (''levels'', JArr [])]
       = game_type_of [(''levels'', JNull), (''pairs'', JNull)]
   \<and> \<not> has_key ''levels'' [(''pairs'', JArr []), (''words'', JArr [])]
   \<and> has_key ''words'' [(''pairs'', JArr []), (''words'', JArr [])]
   \<and> game_type_of [(''pairs'', JArr []), (''words'', JArr [])] = Some hangman
   \<and> complete_game_ajax_view demo_column
        (demo_store [(''pairs'', JArr []), (''levels'', JArr [])] ASSIGNED [])
        (demo_request (JObj [(''score'', JNum 50)])) 1
      = (JsonResponse [(''status'', JStr ''success''), (''score'', JNum 50),
                       (''completed'', JBool False)] 200,
         demo_store [(''pairs'', JArr []), (''levels'', JArr [])] ASSIGNED
           [\<lparr>sub_assignment_id = 1, sub_student_id = 7,
             sub_status = Submission_SUBMITTED, submitted_at = ''2025-01-02T09:30:00'',
             graded_at = ''2025-01-02T09:30:00'', score = Some 50,
             feedback = ''Peli suoritettu.''\<rparr>])"
  using
    dispatch_precedence
      [of "[(''pairs'', JArr []), (''levels'', JArr [])]"
          "[(''levels'', JNull), (''pairs'', JNull)]"
          "\<lparr>structured_content = Some [(''pairs'', JArr []), (''levels'', JArr [])]\<rparr>"
          "demo_store [(''pairs'', JArr []), (''levels'', JArr [])] ASSIGNED []" 1
          "demo_assignment [(''pairs'', JArr []), (''levels'', JArr [])] ASSIGNED"
          "demo_request (JObj [(''score'', JNum 50)])" "[(''score'', JNum 50)]", where col = demo_column]
    dispatch_precedence
      [of "[(''pairs'', JArr []), (''words'', JArr [])]"
          "[(''pairs'', JArr []), (''words'', JArr [])]", where col = demo_column]
  by (auto simp: has_key_def demo_assignment_def demo_store_def demo_request_def
        content_or_empty_def dict_get_def first_attempt_def py_ge_def create_submission_def)

section \<open>A body without a score\<close>

text \<open>
  Claim C9, as stated, fails: a body that is valid JSON without a \<open>score\<close> field need
  not be an object. The body \<^verbatim>\<open>[]\<close> on a first attempt at a quiz makes \<^verbatim>\<open>data.get\<close>
  raise \<^verbatim>\<open>AttributeError\<close>, which the view does not catch: no Submission with score 0
  is created, and the outcome differs from that of the body \<^verbatim>\<open>{"score": 0}\<close>.
\<close>

theorem missing_score_counterexample:
  "complete_game_ajax_view demo_column (demo_store [(''levels'', JArr [])] IN_PROGRESS [])
     (demo_request (JArr [])) 1
   = (Unhandled AttributeError, demo_store [(''levels'', JArr [])] IN_PROGRESS [])
   \<and> complete_game_ajax_view demo_column (demo_store [(''levels'', JArr [])] IN_PROGRESS [])
       (demo_request (JArr [])) 1
     \<noteq> complete_game_ajax_view demo_column (demo_store [(''levels'', JArr [])] IN_PROGRESS [])
         (demo_request (JObj [(''score'', JNum 0)])) 1"
  by (simp add: demo_assignment_def demo_store_def demo_request_def
        complete_game_ajax_view_def get_own_assignment_def content_or_empty_def
        game_type_of_def has_key_def dict_get_def first_attempt_def py_ge_def
        create_submission_def)

text \<open>
  Claim C9, amended. For every completion request whose body is a JSON object without
  the key \<open>score\<close>, the view does not answer the validation error of the body
  ("Virheellinen JSON"): it proceeds with the score 0, and its outcome, the answer and
  the store, is the outcome for the body \<^verbatim>\<open>{"score": 0}\<close>, on a first attempt and on a
  repeated one. So on a first attempt it appends a Submission with score 0 and answers
  \<open>success\<close>; for a quiz \<open>completed\<close> is false and the assignments are unchanged, for
  hangman and memory \<open>completed\<close> is true and the assignment becomes GRADED.
\<close>

theorem missing_score_defaults_to_zero:
  assumes "body req = Json (JObj data)" and "\<not> has_key ''score'' data"
  shows "complete_game_ajax_view col db req aid =
           complete_game_ajax_view col db (req\<lparr>body := Json (JObj [(''score'', JNum 0)])\<rparr>) aid
         \<and> fst (complete_game_ajax_view col db req aid) \<noteq> error_response ''Virheellinen JSON''
         \<and> (assignments db aid = Some a \<and> student_id a = user_id req \<and> material a = Some m
              \<and> game_type_of (content_or_empty m) = Some gt \<and> status a \<noteq> GRADED
            \<longrightarrow> complete_game_ajax_view col db req aid =
                  (JsonResponse [(''status'', JStr ''success''), (''score'', JNum 0),
                                 (''completed'', JBool (gt \<noteq> quiz))] 200,
                   \<lparr>assignments = (if gt \<noteq> quiz
                                    then (assignments db)(aid \<mapsto> a\<lparr>status := GRADED\<rparr>)
                                    else assignments db),
                    submissions = submissions db @
                      [\<lparr>sub_assignment_id = aid, sub_student_id = user_id req,
                        sub_status = Submission_SUBMITTED, submitted_at = now req,
                        graded_at = now req, score = Some 0,
                        feedback = ''Peli suoritettu.''\<rparr>]\<rparr>))"
proof (intro conjI impI)
  from assms(2) have sc: "dict_get data ''score'' (JNum 0) = JNum 0"
    by (rule dict_get_absent)
  have sc0: "dict_get [(''score'', JNum 0)] ''score'' (JNum 0) = JNum 0"
    by (simp add: dict_get_def)
  show "complete_game_ajax_view col db req aid =
          complete_game_ajax_view col db (req\<lparr>body := Json (JObj [(''score'', JNum 0)])\<rparr>) aid"
  proof (rule complete_game_request_cong)
    show "body req = Json (JObj data)" by (rule assms(1))
    show "dict_get data ''score'' (JNum 0) = dict_get [(''score'', JNum 0)] ''score'' (JNum 0)"
      by (simp only: sc sc0)
  qed simp_all
  have msgs: "error_response (''Virheellinen pelisis'' @ [CHR 0xC3, CHR 0xA4] @ ''lt''
                 @ [CHR 0xC3, CHR 0xB6]) \<noteq> error_response ''Virheellinen JSON''"
    "error_response ''Tuntematon pelityyppi'' \<noteq> error_response ''Virheellinen JSON''"
    "Http404 \<noteq> error_response ''Virheellinen JSON''"
    by (simp_all add: error_response_def)
  show "fst (complete_game_ajax_view col db req aid) \<noteq> error_response ''Virheellinen JSON''"
    using assms(1) sc msgs first_attempt_not_parse_error repeat_attempt_not_parse_error
    by (simp add: complete_game_ajax_view_def Let_def split: option.splits)
next
  assume h: "assignments db aid = Some a \<and> student_id a = user_id req \<and> material a = Some m
              \<and> game_type_of (content_or_empty m) = Some gt \<and> status a \<noteq> GRADED"
  from assms(2) have sc: "dict_get data ''score'' (JNum 0) = JNum 0"
    by (rule dict_get_absent)
  from h assms(1) sc
  show "complete_game_ajax_view col db req aid =
          (JsonResponse [(''status'', JStr ''success''), (''score'', JNum 0),
                         (''completed'', JBool (gt \<noteq> quiz))] 200,
           \<lparr>assignments = (if gt \<noteq> quiz
                            then (assignments db)(aid \<mapsto> a\<lparr>status := GRADED\<rparr>)
                            else assignments db),
            submissions = submissions db @
              [\<lparr>sub_assignment_id = aid, sub_student_id = user_id req,
                sub_status = Submission_SUBMITTED, submitted_at = now req,
                graded_at = now req, score = Some 0,
                feedback = ''Peli suoritettu.''\<rparr>]\<rparr>)"
    by (cases db)
       (simp add: complete_game_ajax_view_def get_own_assignment_def first_attempt_def
          py_ge_def create_submission_def save_status_def Let_def)
qed

text \<open>
  The body \<^verbatim>\<open>{"time": 12}\<close>: a first attempt at a memory game is graded with a row of
  score 0; on a graded quiz with a stored score of 60 the answer is \<open>retry\<close> with the
  score 0 and the row keeps 60.
\<close>

theorem missing_score_defaults_to_zero_witness:
  "body (demo_request (JObj [(''time'', JNum 12)])) = Json (JObj [(''time'', JNum 12)])
   \<and> \<not> has_key ''score'' [(''time'', JNum 12)]
   \<and> assignments (demo_store [(''pairs'', JArr [])] ASSIGNED []) 1
       = Some (demo_assignment [(''pairs'', JArr [])] ASSIGNED)
   \<and> student_id (demo_assignment [(''pairs'', JArr [])] ASSIGNED)
       = user_id (demo_request (JObj [(''time'', JNum 12)]))
   \<and> material (demo_assignment [(''pairs'', JArr [])] ASSIGNED)
       = Some \<lparr>structured_content = Some [(''pairs'', JArr [])]\<rparr>
   \<and> game_type_of (content_or_empty \<lparr>structured_content = Some [(''pairs'', JArr [])]\<rparr>)
       = Some memory
   \<and> status (demo_assignment [(''pairs'', JArr [])] ASSIGNED) \<noteq> GRADED
   \<and> complete_game_ajax_view demo_column (demo_store [(''pairs'', JArr [])] ASSIGNED [])
        (demo_request (JObj [(''time'', JNum 12)])) 1
      = (JsonResponse [(''status'', JStr ''success''), (''score'', JNum 0),
                       (''completed'', JBool True)] 200,
         demo_store [(''pairs'', JArr [])] GRADED
           [\<lparr>sub_assignment_id = 1, sub_student_id = 7,
             sub_status = Submission_SUBMITTED, submitted_at = ''2025-01-02T09:30:00'',
             graded_at = ''2025-01-02T09:30:00'', score = Some 0,
             feedback = ''Peli suoritettu.''\<rparr>])
   \<and> complete_game_ajax_view demo_column
        (demo_store [(''levels'', JArr [])] GRADED [demo_submission (Some 60)])
        (demo_request (JObj [(''time'', JNum 12)])) 1
      = (JsonResponse [(''status'', JStr ''retry''), (''score'', JNum 0),
                       (''completed'', JBool False)] 200,
         demo_store [(''levels'', JArr [])] GRADED [demo_submission (Some 60)])
   \<and> complete_game_ajax_view demo_column
        (demo_store [(''levels'', JArr [])] GRADED [demo_submission (Some 60)])
        (demo_request (JObj [(''time'', JNum 12)])) 1
      = complete_game_ajax_view demo_column
          (demo_store [(''levels'', JArr [])] GRADED [demo_submission (Some 60)])
          (demo_request (JObj [(''score'', JNum 0)])) 1"
  using
    missing_score_defaults_to_zero
      [of "demo_request (JObj [(''time'', JNum 12)])" "[(''time'', JNum 12)]" demo_column
          "demo_store [(''pairs'', JArr [])] ASSIGNED []" 1
          "demo_assignment [(''pairs'', JArr [])] ASSIGNED"
          "\<lparr>structured_content = Some [(''pairs'', JArr [])]\<rparr>" memory,
       THEN conjunct2, THEN conjunct2]
    missing_score_defaults_to_zero
      [of "demo_request (JObj [(''time'', JNum 12)])" "[(''time'', JNum 12)]" demo_column
          "demo_store [(''levels'', JArr [])] GRADED [demo_submission (Some 60)]" 1,
       THEN conjunct1]
  by (simp add: demo_assignment_def demo_submission_def demo_store_def demo_request_def
        demo_column_def complete_game_ajax_view_def get_own_assignment_def
        content_or_empty_def game_type_of_def has_key_def dict_get_def repeat_attempt_def
        record_retry_def stored_pass_def submissions_last_def score_or_0_def py_lt_def
        py_ge_def)

section \<open>Autosave\<close>

text \<open>
  Claim C6. An autosave request on an assignment of the caller whose status is
  SUBMITTED or GRADED is answered with status 400, \<open>ok\<close> false and the error
  \<open>locked\<close>, and the store, with the draft and the status of the assignment, is returned
  as it was.
\<close>

theorem autosave_locked:
  assumes "assignments db aid = Some a" and "student_id a = autosave_user_id req"
    and "status a = SUBMITTED \<or> status a = GRADED"
  shows "assignment_autosave_view db req aid =
           (JsonResponse [(''ok'', JBool False), (''error'', JStr ''locked'')] 400, db)"
  using assms by (auto simp: assignment_autosave_view_def)

text \<open>A submitted assignment with the draft "hi": the draft "new" is refused.\<close>

theorem autosave_locked_witness:
  "assignments \<lparr>assignments = [3 \<mapsto> demo_draft_assignment SUBMITTED [104, 105]],
                submissions = []\<rparr> 3
     = Some (demo_draft_assignment SUBMITTED [104, 105])
   \<and> student_id (demo_draft_assignment SUBMITTED [104, 105])
       = autosave_user_id (demo_autosave [110, 101, 119])
   \<and> status (demo_draft_assignment SUBMITTED [104, 105]) = SUBMITTED
   \<and> assignment_autosave_view
        \<lparr>assignments = [3 \<mapsto> demo_draft_assignment SUBMITTED [104, 105]], submissions = []\<rparr>
        (demo_autosave [110, 101, 119]) 3
      = (JsonResponse [(''ok'', JBool False), (''error'', JStr ''locked'')] 400,
         \<lparr>assignments = [3 \<mapsto> demo_draft_assignment SUBMITTED [104, 105]],
          submissions = []\<rparr>)"
  using
    autosave_locked
      [of "\<lparr>assignments = [3 \<mapsto> demo_draft_assignment SUBMITTED [104, 105]],
            submissions = []\<rparr>" 3
          "demo_draft_assignment SUBMITTED [104, 105]" "demo_autosave [110, 101, 119]"]
  by (simp add: demo_draft_assignment_def demo_autosave_def)

text \<open>
  Claim C7. An autosave request of the owning student on an assignment that is neither
  SUBMITTED nor GRADED is answered \<open>ok\<close> true with the time of the save, and stores the
  stripped draft; the status becomes IN_PROGRESS when the stripped draft is not empty
  and the status was ASSIGNED, and is kept otherwise, so an assignment IN_PROGRESS
  stays IN_PROGRESS. This is the only change of status that autosave makes: whenever
  the status of an assignment differs after a call, it was ASSIGNED, it is
  IN_PROGRESS, the assignment is the one of the request and its stored draft is not
  empty.
\<close>

theorem autosave_stores_draft:
  "(assignments db aid = Some a \<and> student_id a = autosave_user_id req
      \<and> status a \<noteq> SUBMITTED \<and> status a \<noteq> GRADED
    \<longrightarrow> assignment_autosave_view db req aid =
          (JsonResponse [(''ok'', JBool True),
                         (''saved_at'', JStr (isoformat (autosave_now req)))] 200,
           db\<lparr>assignments := (assignments db)(aid \<mapsto>
                a\<lparr>draft_response := strip (case post_response req of None \<Rightarrow> [] | Some s \<Rightarrow> s),
                  status := (if strip (case post_response req of None \<Rightarrow> [] | Some s \<Rightarrow> s) \<noteq> []
                                \<and> status a = ASSIGNED
                             then IN_PROGRESS else status a)\<rparr>)\<rparr>))
   \<and> (assignments db k = Some a0
        \<and> assignments (snd (assignment_autosave_view db req aid)) k = Some a1
        \<and> status a1 \<noteq> status a0
      \<longrightarrow> status a0 = ASSIGNED \<and> status a1 = IN_PROGRESS \<and> k = aid
          \<and> draft_response a1 \<noteq> [])"
proof (intro conjI impI)
  assume "assignments db aid = Some a \<and> student_id a = autosave_user_id req
      \<and> status a \<noteq> SUBMITTED \<and> status a \<noteq> GRADED"
  then show "assignment_autosave_view db req aid =
          (JsonResponse [(''ok'', JBool True),
                         (''saved_at'', JStr (isoformat (autosave_now req)))] 200,
           db\<lparr>assignments := (assignments db)(aid \<mapsto>
                a\<lparr>draft_response := strip (case post_response req of None \<Rightarrow> [] | Some s \<Rightarrow> s),
                  status := (if strip (case post_response req of None \<Rightarrow> [] | Some s \<Rightarrow> s) \<noteq> []
                                \<and> status a = ASSIGNED
                             then IN_PROGRESS else status a)\<rparr>)\<rparr>)"
    by (cases a) (auto simp: assignment_autosave_view_def Let_def split: option.splits)
next
  assume h: "assignments db k = Some a0
        \<and> assignments (snd (assignment_autosave_view db req aid)) k = Some a1
        \<and> status a1 \<noteq> status a0"
  then show "status a0 = ASSIGNED" "status a1 = IN_PROGRESS" "k = aid" "draft_response a1 \<noteq> []"
    by (auto simp: assignment_autosave_view_def Let_def split: option.splits if_splits)
qed

text \<open>
  The draft " hi " on an assigned assignment is stored as "hi" and moves it to
  IN_PROGRESS; the draft "hi there" afterwards is stored and leaves it IN_PROGRESS.
\<close>

theorem autosave_stores_draft_witness:
  "assignments \<lparr>assignments = [3 \<mapsto> demo_draft_assignment ASSIGNED []], submissions = []\<rparr> 3
     = Some (demo_draft_assignment ASSIGNED [])
   \<and> student_id (demo_draft_assignment ASSIGNED [])
       = autosave_user_id (demo_autosave [32, 104, 105, 32])
   \<and> status (demo_draft_assignment ASSIGNED []) \<noteq> SUBMITTED
   \<and> status (demo_draft_assignment ASSIGNED []) \<noteq> GRADED
   \<and> strip [32, 104, 105, 32] = [104, 105]
   \<and> assignment_autosave_view
        \<lparr>assignments = [3 \<mapsto> demo_draft_assignment ASSIGNED []], submissions = []\<rparr>
        (demo_autosave [32, 104, 105, 32]) 3
      = (JsonResponse [(''ok'', JBool True), (''saved_at'', JStr ''2025-01-02T09:30:00'')] 200,
         \<lparr>assignments = [3 \<mapsto> demo_draft_assignment IN_PROGRESS [104, 105]],
          submissions = []\<rparr>)
   \<and> status (demo_draft_assignment IN_PROGRESS [104, 105])
       \<noteq> status (demo_draft_assignment ASSIGNED [])
   \<and> draft_response (demo_draft_assignment IN_PROGRESS [104, 105]) \<noteq> []
   \<and> assignment_autosave_view
        \<lparr>assignments = [3 \<mapsto> demo_draft_assignment IN_PROGRESS [104, 105]],
         submissions = []\<rparr>
        (demo_autosave [104, 105, 32, 116, 104, 101, 114, 101]) 3
      = (JsonResponse [(''ok'', JBool True), (''saved_at'', JStr ''2025-01-02T09:30:00'')] 200,
         \<lparr>assignments =
            [3 \<mapsto> demo_draft_assignment IN_PROGRESS [104, 105, 32, 116, 104, 101, 114, 101]],
          submissions = []\<rparr>)"
  using
    autosave_stores_draft
      [of "\<lparr>assignments = [3 \<mapsto> demo_draft_assignment ASSIGNED []], submissions = []\<rparr>" 3
          "demo_draft_assignment ASSIGNED []" "demo_autosave [32, 104, 105, 32]" 3
          "demo_draft_assignment ASSIGNED []" "demo_draft_assignment IN_PROGRESS [104, 105]"]
    autosave_stores_draft
      [of "\<lparr>assignments = [3 \<mapsto> demo_draft_assignment IN_PROGRESS [104, 105]],
            submissions = []\<rparr>" 3
          "demo_draft_assignment IN_PROGRESS [104, 105]"
          "demo_autosave [104, 105, 32, 116, 104, 101, 114, 101]" 3
          "demo_draft_assignment IN_PROGRESS [104, 105]"
          "demo_draft_assignment IN_PROGRESS [104, 105, 32, 116, 104, 101, 114, 101]"]
  by (simp add: demo_draft_assignment_def demo_autosave_def strip_def isspace_def
        isoformat_def)

section \<open>Generation\<close>

lemma generate_game_content_str:
  "generate_game_content llm topic game_type difficulty = Inr p \<Longrightarrow> \<exists>g. game_type = JStr g"
  by (auto simp: generate_game_content_def split: if_splits)

text \<open>
  Claim C8, as stated, fails: the generation view does not look at the shape of the
  payload. For a teacher's request for a quiz on the topic "avaruus", the payload
  \<^verbatim>\<open>{"foo": 1}\<close>, which has none of the keys of the three shapes, is returned as a
  success.
\<close>

theorem generate_unvalidated_counterexample:
  "game_type_of [(''foo'', JNum 1)] = None
   \<and> generate_game_ajax_view demo_python demo_generate (Payload (JObj [(''foo'', JNum 1)]))
       (Payload demo_metadata)
     = JsonResponse [(''success'', JBool True), (''game_data'', JObj [(''foo'', JNum 1)]),
                     (''metadata'', JObj [(''title'', JStr ''Avaruus''),
                                          (''subject'', JStr ''Fysiikka'')])] 200"
  by (simp add: demo_generate_def demo_metadata_def demo_python_def game_type_of_def
        has_key_def generate_game_ajax_view_def generate_game_content_def client_reply_def
        dict_get_def generate_game_metadata_def fallback_title_def metadata_dict_def
        VALID_SUBJECTS_def default_subject_def)

text \<open>
  Claim C8, amended. For a teacher's request whose topic is a non-empty str and whose
  game type is \<open>quiz\<close>, \<open>hangman\<close> or \<open>memory\<close> (with a hashable difficulty), the
  generation view treats the call as failed, with status 500 and the text of the
  exception, when the call to the content generator or the decoding of its answer
  raises; every payload that decodes as JSON is returned as a success, whatever its
  shape, together with the metadata that \<^verbatim>\<open>generate_game_metadata\<close> computes, and this
  for every answer of the collaborator to the metadata prompt.
\<close>

theorem generate_returns_any_payload:
  assumes "role request = Some ''TEACHER''" and "generate_body request = Dict data"
    and "dict_get data ''topic'' JNull = JStr t" and "t \<noteq> []"
    and "dict_get data ''game_type'' JNull = JStr g"
    and "g = ''quiz'' \<or> g = ''hangman'' \<or> g = ''memory''"
    and "unhashable (dict_get data ''difficulty'' (JStr ''medium'')) = None"
  shows "generate_game_ajax_view py request (Payload p) meta_llm =
           JsonResponse
             [(''success'', JBool True), (''game_data'', p),
              (''metadata'',
               metadata_dict (capitalize py t @ '': '' @ take_code_points 40 g) meta_llm)] 200
         \<and> generate_game_ajax_view py request (Raises msg) meta_llm =
           JsonResponse [(''error'', JStr msg)] 500"
  using assms
  by (auto simp: generate_game_ajax_view_def generate_game_content_def client_reply_def
        generate_game_metadata_def fallback_title_def Let_def)

text \<open>
  A request for a quiz on the topic "avaruus": a payload that is a list is returned as
  a success, also when the metadata call fails and the fallback gives the title and the
  subject; a failed call to the content generator is answered with status 500.
\<close>

theorem generate_returns_any_payload_witness:
  "role demo_generate = Some ''TEACHER''
   \<and> generate_body demo_generate
       = Dict [(''topic'', JStr ''avaruus''), (''game_type'', JStr ''quiz'')]
   \<and> dict_get [(''topic'', JStr ''avaruus''), (''game_type'', JStr ''quiz'')]
        ''topic'' JNull = JStr ''avaruus''
   \<and> ''avaruus'' \<noteq> []
   \<and> dict_get [(''topic'', JStr ''avaruus''), (''game_type'', JStr ''quiz'')]
        ''game_type'' JNull = JStr ''quiz''
   \<and> unhashable (dict_get [(''topic'', JStr ''avaruus''), (''game_type'', JStr ''quiz'')]
                   ''difficulty'' (JStr ''medium'')) = None
   \<and> generate_game_ajax_view demo_python demo_generate (Payload (JArr [JNum 1, JNum 2]))
       (Raises ''Connection error.'')
     = JsonResponse [(''success'', JBool True), (''game_data'', JArr [JNum 1, JNum 2]),
                     (''metadata'', JObj [(''title'', JStr ''Avaruus: quiz''),
                                          (''subject'', JStr default_subject)])] 200
   \<and> generate_game_ajax_view demo_python demo_generate (Raises ''Connection error.'')
       (Payload demo_metadata)
     = JsonResponse [(''error'', JStr ''Connection error.'')] 500"
  using
    generate_returns_any_payload
      [of demo_generate "[(''topic'', JStr ''avaruus''), (''game_type'', JStr ''quiz'')]"
          "''avaruus''" "''quiz''" demo_python "JArr [JNum 1, JNum 2]"
          "Raises ''Connection error.''" "''Connection error.''"]
    generate_returns_any_payload
      [of demo_generate "[(''topic'', JStr ''avaruus''), (''game_type'', JStr ''quiz'')]"
          "''avaruus''" "''quiz''" demo_python "JArr [JNum 1, JNum 2]"
          "Payload demo_metadata" "''Connection error.''"]
  by (simp add: demo_generate_def demo_metadata_def demo_python_def dict_get_def
        metadata_dict_def continuation_def)

text \<open>
  A topic that is not a str: the metadata function raises whatever the collaborator
  answers, and the view answers 500 also for a payload of a recognised shape.
\<close>

lemma generate_topic_not_str:
  assumes "role request = Some ''TEACHER''" and "generate_body request = Dict data"
    and "dict_get data ''topic'' JNull = topic" and "truthy topic"
    and "\<forall>s. topic \<noteq> JStr s"
    and "dict_get data ''game_type'' JNull = JStr ''hangman''"
  shows "generate_game_ajax_view py request (Payload p) meta_llm =
           JsonResponse [(''error'', JStr (no_attribute py topic ''capitalize''))] 500"
  using assms
  by (cases topic)
     (auto simp: generate_game_ajax_view_def generate_game_content_def client_reply_def
        generate_game_metadata_def fallback_title_def Let_def)

end
